theory Spec2Isabelle
  imports Main "HOL-Library.Word"
begin

section \<open>Values shared by the client's operations\<close>

text \<open>
  A JSON document as \<^verbatim>\<open>encoding/json\<close> decodes it into an \<^verbatim>\<open>interface{}\<close>: an
  object becomes a \<^verbatim>\<open>map[string]interface{}\<close>, an array a \<^verbatim>\<open>[]interface{}\<close>, a number
  a \<^verbatim>\<open>float64\<close>. \<open>JNumber\<close> is a number that fits a \<^verbatim>\<open>float64\<close>, named by the
  literal of the value stored; \<open>JHuge\<close> is a number literal outside the range of
  \<^verbatim>\<open>float64\<close>, on which the decoder reports an error.
\<close>

datatype json =
    JNull
  | JBool bool
  | JNumber string
  | JHuge string
  | JString string
  | JArray "json list"
  | JObject "(string \<times> json) list"

text \<open>No number of the document is outside the range of \<^verbatim>\<open>float64\<close>.\<close>

fun in_range :: "json \<Rightarrow> bool" where
  "in_range (JHuge s) = False"
| "in_range (JArray xs) = list_all in_range xs"
| "in_range (JObject kvs) = list_all in_range (map snd kvs)"
| "in_range j = True"

text \<open>
  A Go \<^verbatim>\<open>map[string]interface{}\<close> is an association list looked up with \<open>map_of\<close>;
  the nil map and the empty map are both \<open>[]\<close> (they read alike). A JSON object is
  stored with its members reversed, so that the last of two equal keys wins as it does
  in the decoder.
\<close>

type_synonym gomap = "(string \<times> json) list"

datatype error =
    Failure string
  | Errorf string error
  | UnmarshalTypeError
  | SyntaxError
  | QueryError gomap

datatype panic =
    IndexOutOfRange nat nat
  | TypeAssertion
  | SendOnClosedChannel
  | CloseOfClosedChannel

datatype 'a outcome = Panic panic | Return 'a

section \<open>Client.Query\<close>

record columns =
  count :: int
  names :: "string list"

record QueryRows =
  res :: "gomap list"
  columns :: columns

text \<open>
  \<^verbatim>\<open>json.Unmarshal(by, &statementError)\<close> with a \<^verbatim>\<open>map[string]interface{}\<close> target.
  The argument is the document the bytes hold (\<open>None\<close>: the bytes are not JSON).
  \<^verbatim>\<open>null\<close> leaves the nil map and reports no error; an object with a number outside
  \<^verbatim>\<open>float64\<close> is decoded with an error, and \<^verbatim>\<open>Query\<close> uses the map only when there
  is none.
\<close>

fun unmarshal_map :: "json option \<Rightarrow> error + gomap" where
  "unmarshal_map None = Inl SyntaxError"
| "unmarshal_map (Some JNull) = Inr []"
| "unmarshal_map (Some (JObject kvs)) =
     (if in_range (JObject kvs) then Inr (rev kvs) else Inl UnmarshalTypeError)"
| "unmarshal_map (Some _) = Inl UnmarshalTypeError"

text \<open>
  \<^verbatim>\<open>json.Unmarshal(by, &resultsRaw)\<close> with a \<^verbatim>\<open>[]map[string]interface{}\<close> target:
  every element must be an object or \<^verbatim>\<open>null\<close>, and every number must fit a
  \<^verbatim>\<open>float64\<close>.
\<close>

fun is_map_elem :: "json \<Rightarrow> bool" where
  "is_map_elem JNull = True"
| "is_map_elem (JObject kvs) = True"
| "is_map_elem _ = False"

fun elem_map :: "json \<Rightarrow> gomap" where
  "elem_map (JObject kvs) = rev kvs"
| "elem_map _ = []"

fun unmarshal_maps :: "json option \<Rightarrow> error + gomap list" where
  "unmarshal_maps None = Inl SyntaxError"
| "unmarshal_maps (Some JNull) = Inr []"
| "unmarshal_maps (Some (JArray xs)) =
     (if list_all is_map_elem xs \<and> in_range (JArray xs) then Inr (map elem_map xs)
      else Inl UnmarshalTypeError)"
| "unmarshal_maps (Some _) = Inl UnmarshalTypeError"

text \<open>
  The header block of \<^verbatim>\<open>Query\<close> (client.go, lines 85 to 95). \<open>cols\<close> starts with
  \<open>count = -1\<close>; the comma-ok assertion to a map cannot panic, the assertion
  \<^verbatim>\<open>schema.(string)\<close> can. \<open>parseSchemaKeys\<close> is declared in another file of the package
  and is a parameter.
\<close>

definition unknown_columns :: columns where
  "unknown_columns = \<lparr>count = -1, names = []\<rparr>"

definition header_columns :: "(string \<Rightarrow> string list) \<Rightarrow> gomap \<Rightarrow> columns outcome" where
  "header_columns parseSchemaKeys first =
     (let cols = unknown_columns in
      case map_of first ''header'' of
        None \<Rightarrow> Return cols
      | Some h \<Rightarrow>
          (case h of
             JObject kvs \<Rightarrow>
               (case map_of (rev kvs) ''schema'' of
                  None \<Rightarrow> Return cols
                | Some schema \<Rightarrow>
                    (case schema of
                       JString s \<Rightarrow>
                         (let cols1 = cols\<lparr>names := parseSchemaKeys s\<rparr>
                          in Return (cols1\<lparr>count := int (length (names cols1))\<rparr>))
                     | _ \<Rightarrow> Panic TypeAssertion))
           | _ \<Rightarrow> Return cols))"

text \<open>
  The schema entry of the header of a result, as the header block looks it up: present
  when the result has a \<open>header\<close> that is an object with a \<open>schema\<close> member.
\<close>

definition header_schema :: "gomap \<Rightarrow> json option" where
  "header_schema first =
     (case map_of first ''header'' of
        Some (JObject kvs) \<Rightarrow> map_of (rev kvs) ''schema''
      | _ \<Rightarrow> None)"

text \<open>
  What the collaborators of one request answer: the payload encoder, \<^verbatim>\<open>makeRequest\<close>
  (declared in another file of the package) and the transport's \<^verbatim>\<open>Do\<close>, whose answer
  is an error or a response of type \<open>'r\<close>. For \<^verbatim>\<open>Query\<close> the response body is read
  whole (a read error is ignored by the code, so only the bytes count) and \<open>'r\<close> is the
  document the bytes hold, \<open>None\<close> when they are not JSON.
\<close>

record 'r request_env =
  encode_error :: "error option"
  makeRequest_error :: "error option"
  do_result :: "error + 'r"

definition Query :: "(string \<Rightarrow> string list) \<Rightarrow> json option request_env \<Rightarrow> (error + QueryRows) outcome" where
  "Query parseSchemaKeys env =
     (case encode_error env of
        Some err \<Rightarrow> Return (Inl err)
      | None \<Rightarrow>
     (case makeRequest_error env of
        Some err \<Rightarrow> Return (Inl err)
      | None \<Rightarrow>
     (case do_result env of
        Inl err \<Rightarrow> Return (Inl (Errorf ''unable to get response'' err))
      | Inr by \<Rightarrow>
     (case unmarshal_map by of
        Inr statementError \<Rightarrow> Return (Inl (QueryError statementError))
      | Inl _ \<Rightarrow>
     (case unmarshal_maps by of
        Inl err \<Rightarrow> Return (Inl err)
      | Inr resultsRaw \<Rightarrow>
     (case resultsRaw of
        [] \<Rightarrow> Panic (IndexOutOfRange 0 0)
      | first # rest \<Rightarrow>
          (case header_columns parseSchemaKeys first of
             Panic p \<Rightarrow> Panic p
           | Return cols \<Rightarrow> Return (Inr \<lparr>res = rest, columns = cols\<rparr>))))))))"

text \<open>A call whose request succeeds and whose response is \<open>r\<close>.\<close>

definition answered :: "'r \<Rightarrow> 'r request_env" where
  "answered r = \<lparr>encode_error = None, makeRequest_error = None, do_result = Inr r\<rparr>"

section \<open>Byte sources\<close>

text \<open>
  An \<^verbatim>\<open>io.ReadCloser\<close> is an interface: the client sees only what \<^verbatim>\<open>Read\<close> and
  \<^verbatim>\<open>Close\<close> return. The model is the script of those answers: the chunks still to be
  read, how the stream ends (\<^verbatim>\<open>io.EOF\<close> is \<open>None\<close>), what the next calls of
  \<^verbatim>\<open>Close\<close> return (nil once the script is used up), how often \<^verbatim>\<open>Close\<close> was
  called, and what \<^verbatim>\<open>Read\<close> answers once the source is closed (\<open>None\<close>: it goes on
  reading; the response bodies of \<^verbatim>\<open>net/http\<close> answer with an error). The script
  is finite: a stream that never ends, on which a copy to the end would wait for ever, is
  not a value of the model.
\<close>

record ReadCloser =
  unread :: "string list"
  ending :: "error option"
  close_results :: "error option list"
  closes :: nat
  read_closed :: "error option"

datatype read_result = Bytes string | EOF | ReadError error

definition Read :: "ReadCloser \<Rightarrow> read_result \<times> ReadCloser" where
  "Read r =
     (case (if 0 < closes r then read_closed r else None) of
        Some err \<Rightarrow> (ReadError err, r)
      | None \<Rightarrow>
          (case unread r of
             b # bs \<Rightarrow> (Bytes b, r\<lparr>unread := bs\<rparr>)
           | [] \<Rightarrow> (case ending r of None \<Rightarrow> (EOF, r) | Some err \<Rightarrow> (ReadError err, r))))"

definition Close :: "ReadCloser \<Rightarrow> error option \<times> ReadCloser" where
  "Close r =
     (case close_results r of
        [] \<Rightarrow> (None, r\<lparr>closes := Suc (closes r)\<rparr>)
      | e # es \<Rightarrow> (e, r\<lparr>close_results := es, closes := Suc (closes r)\<rparr>))"

text \<open>
  \<^verbatim>\<open>io.Copy(ioutil.Discard, r)\<close>: read until \<^verbatim>\<open>Read\<close> reports the end or an error,
  throwing the bytes away; the end of the stream is not an error.
\<close>

function Copy_Discard :: "ReadCloser \<Rightarrow> error option \<times> ReadCloser" where
  "Copy_Discard r =
     (case Read r of
        (Bytes b, r') \<Rightarrow> Copy_Discard r'
      | (EOF, r') \<Rightarrow> (None, r')
      | (ReadError err, r') \<Rightarrow> (Some err, r'))"
  by pat_completeness auto
termination
  by (relation "measure (\<lambda>r. length (unread r))")
     (auto simp: Read_def split: option.splits list.splits)

declare Copy_Discard.simps [simp del]

section \<open>Client.QueryStream and the Streaming Row Reader's closer\<close>

record QueryResultHeader =
  QueryID :: string
  ColumnNames :: "string list"
  ColumnTypes :: "string list"

text \<open>
  The \<open>client\<close> field of \<^verbatim>\<open>queryStreamReadCloser\<close> is a pointer to the session; what
  \<^verbatim>\<open>Close\<close> reaches through it is the transport, passed to it as a state of its own.
\<close>

record queryStreamReadCloser =
  queryID :: string
  body :: ReadCloser

record QueryStreamRows =
  rows_body :: queryStreamReadCloser
  rows_columns :: columns

text \<open>
  The session: its two membership lists. A nil pointer in a list is \<open>None\<close>. The lists
  hold handles of any type; the operations that open a stream store the stream itself.
\<close>

record ('r, 'w) Client =
  rows :: "'r option list"
  insertsStreamWriters :: "'w option list"

text \<open>
  The response of the query-stream endpoint: what decoding the first JSON value as a
  \<^verbatim>\<open>QueryResultHeader\<close> gives, and the body the rows are read from later.
\<close>

record stream_response =
  header :: "error + QueryResultHeader"
  Body :: ReadCloser

definition QueryStream ::
  "stream_response request_env \<Rightarrow> (QueryStreamRows, 'w) Client \<Rightarrow>
     error + (QueryStreamRows \<times> (QueryStreamRows, 'w) Client)" where
  "QueryStream env c =
     (case encode_error env of
        Some err \<Rightarrow> Inl err
      | None \<Rightarrow>
     (case makeRequest_error env of
        Some err \<Rightarrow> Inl err
      | None \<Rightarrow>
     (case do_result env of
        Inl err \<Rightarrow> Inl (Errorf ''unable to get response'' err)
      | Inr resp \<Rightarrow>
     (case header resp of
        Inl err \<Rightarrow> Inl err
      | Inr h \<Rightarrow>
          (let r = \<lparr>rows_body = \<lparr>queryID = QueryID h, body = Body resp\<rparr>,
                    rows_columns = \<lparr>count = int (length (ColumnNames h)),
                                    names = ColumnNames h\<rparr>\<rparr>
           in Inr (r, c\<lparr>rows := rows c @ [Some r]\<rparr>))))))"

text \<open>
  The transport as \<^verbatim>\<open>CloseQuery\<close> sees it: the answers to the requests still to come
  (a request beyond the script succeeds), and the query identifiers of the close-query
  requests that were handed to \<^verbatim>\<open>Do\<close>. The response of \<^verbatim>\<open>Do\<close> is thrown away.
\<close>

record transport =
  answers :: "unit request_env list"
  close_requests :: "string list"

definition CloseQuery :: "string \<Rightarrow> transport \<Rightarrow> error option \<times> transport" where
  "CloseQuery qid t =
     (let env = (case answers t of [] \<Rightarrow> answered () | e # es \<Rightarrow> e);
          t1 = t\<lparr>answers := tl (answers t)\<rparr>
      in case encode_error env of
           Some err \<Rightarrow> (Some err, t1)
         | None \<Rightarrow>
        (case makeRequest_error env of
           Some err \<Rightarrow> (Some err, t1)
         | None \<Rightarrow>
        (let t2 = t1\<lparr>close_requests := close_requests t1 @ [qid]\<rparr>
         in case do_result env of
              Inl err \<Rightarrow> (Some err, t2)
            | Inr u \<Rightarrow> (None, t2))))"

text \<open>\<^verbatim>\<open>queryStreamReadCloser.Close\<close> (client.go, lines 336 to 341).\<close>

definition queryStreamReadCloser_Close ::
  "queryStreamReadCloser \<Rightarrow> transport \<Rightarrow> error option \<times> queryStreamReadCloser \<times> transport" where
  "queryStreamReadCloser_Close q t =
     (case CloseQuery (queryID q) t of
        (Some err, t') \<Rightarrow> (Some err, q, t')
      | (None, t') \<Rightarrow>
          (case Close (body q) of (e, b) \<Rightarrow> (e, q\<lparr>body := b\<rparr>, t')))"

section \<open>The Duplex Insertion Stream\<close>

record InsertsStreamAck =
  Status :: string
  Seq :: "64 word"

record InsertsStreamCloser =
  req :: ReadCloser
  resp :: ReadCloser

text \<open>
  \<^verbatim>\<open>InsertsStreamCloser.Close\<close> (client.go, lines 419 to 430). Beside the error and the
  two byte sources it returns the calls it made on them, in the order it made them.
\<close>

datatype closer_call = ReqClose | RespCopyDiscard | RespClose

definition InsertsStreamCloser_Close ::
  "InsertsStreamCloser \<Rightarrow> error option \<times> InsertsStreamCloser \<times> closer_call list" where
  "InsertsStreamCloser_Close i =
     (case Close (req i) of
        (Some err, rq) \<Rightarrow> (Some err, i\<lparr>req := rq\<rparr>, [ReqClose])
      | (None, rq) \<Rightarrow>
     (case Copy_Discard (resp i) of
        (Some err, rs) \<Rightarrow> (Some err, i\<lparr>req := rq, resp := rs\<rparr>, [ReqClose, RespCopyDiscard])
      | (None, rs) \<Rightarrow>
     (case Close rs of
        (e, rs') \<Rightarrow> (e, i\<lparr>req := rq, resp := rs'\<rparr>, [ReqClose, RespCopyDiscard, RespClose]))))"

text \<open>
  The outbound path: the JSON values encoded onto the pipe, in order. \<^verbatim>\<open>Encode\<close>
  returns when the transport has taken the value from the pipe, or with an error.
\<close>

datatype frame = Target string | Record gomap

definition Encode :: "error option \<Rightarrow> frame \<Rightarrow> frame list \<Rightarrow> error option \<times> frame list" where
  "Encode answer f pw =
     (case answer of None \<Rightarrow> (None, pw @ [f]) | Some err \<Rightarrow> (Some err, pw))"

text \<open>
  The writer. \<open>enc\<close> is the encoder on the pipe, that is the frames written through it;
  \<open>ackMap\<close> is the \<^verbatim>\<open>map[int64]string\<close>. The two channels are not fields of the model:
  what they carry is the event list of \<open>ackReader\<close> below.
\<close>

record InsertsStreamWriter =
  enc :: "frame list"
  ackMap :: "64 word \<rightharpoonup> string"
  curr :: "64 word"
  closer :: InsertsStreamCloser

text \<open>The read end of \<^verbatim>\<open>io.Pipe()\<close>, whose \<^verbatim>\<open>Close\<close> always returns nil.\<close>

definition pipe_reader :: ReadCloser where
  "pipe_reader = \<lparr>unread = [], ending = None, close_results = [], closes = 0,
                   read_closed = Some (Failure ''io: read/write on closed pipe'')\<rparr>"

text \<open>
  \<^verbatim>\<open>Client.InsertsStream\<close> (client.go, lines 433 to 481) up to the start of the
  background task. \<open>encode_error env\<close> is what \<^verbatim>\<open>enc.Encode(&payload)\<close> returns in the
  errgroup, which \<^verbatim>\<open>g.Wait()\<close> hands over after \<^verbatim>\<open>Do\<close> has returned.
\<close>

definition InsertsStream ::
  "string \<Rightarrow> ReadCloser request_env \<Rightarrow> ('r, InsertsStreamWriter) Client \<Rightarrow>
     error + (InsertsStreamWriter \<times> ('r, InsertsStreamWriter) Client)" where
  "InsertsStream target env c =
     (case makeRequest_error env of
        Some err \<Rightarrow> Inl err
      | None \<Rightarrow>
     (case Encode (encode_error env) (Target target) [] of
        (waited, pw) \<Rightarrow>
     (case do_result env of
        Inl err \<Rightarrow> Inl err
      | Inr resBody \<Rightarrow>
     (case waited of
        Some err \<Rightarrow> Inl err
      | None \<Rightarrow>
          (let i = \<lparr>enc = pw, ackMap = Map.empty, curr = 0,
                    closer = \<lparr>req = pipe_reader, resp = resBody\<rparr>\<rparr>
           in Inr (i, c\<lparr>insertsStreamWriters := insertsStreamWriters c @ [Some i]\<rparr>))))))"

subsection \<open>The background acknowledgement reader\<close>

text \<open>
  The task started at client.go, lines 454 to 470. Its input is what the
  \<^verbatim>\<open>bufio.Scanner\<close> yields from the response body: the lines, each seen through
  \<^verbatim>\<open>json.Unmarshal(b, &ack)\<close> (the error it returns and the value \<open>ack\<close> holds
  afterwards, the zero value where nothing was decoded), and \<^verbatim>\<open>sc.Err()\<close> once
  \<^verbatim>\<open>Scan\<close> has returned false.

  Its output is the sequence of events on the two channels, with a consumer that takes
  every value offered: \<open>ackCh\<close> is unbuffered and \<open>errCh\<close> has room for the one value
  sent before it is closed, so no send of the task waits for ever. A send on a closed
  channel and a second close panic, as in Go; the deferred \<^verbatim>\<open>close(ackCh)\<close> runs
  on return and on panic alike.
\<close>

datatype token = Token (unmarshal_error: "error option") (unmarshalled: InsertsStreamAck)

datatype event =
    AckDelivered InsertsStreamAck
  | ErrDelivered error
  | ErrChClosed
  | AckChClosed

record channels =
  events :: "event list"
  ackCh_closed :: bool
  errCh_closed :: bool

definition open_channels :: channels where
  "open_channels = \<lparr>events = [], ackCh_closed = False, errCh_closed = False\<rparr>"

type_synonym step = "channels \<Rightarrow> panic option \<times> channels"

definition send_ackCh :: "InsertsStreamAck \<Rightarrow> step" where
  "send_ackCh a ch =
     (if ackCh_closed ch then (Some SendOnClosedChannel, ch)
      else (None, ch\<lparr>events := events ch @ [AckDelivered a]\<rparr>))"

definition send_errCh :: "error \<Rightarrow> step" where
  "send_errCh err ch =
     (if errCh_closed ch then (Some SendOnClosedChannel, ch)
      else (None, ch\<lparr>events := events ch @ [ErrDelivered err]\<rparr>))"

definition close_errCh :: step where
  "close_errCh ch =
     (if errCh_closed ch then (Some CloseOfClosedChannel, ch)
      else (None, ch\<lparr>events := events ch @ [ErrChClosed], errCh_closed := True\<rparr>))"

definition close_ackCh :: step where
  "close_ackCh ch =
     (if ackCh_closed ch then (Some CloseOfClosedChannel, ch)
      else (None, ch\<lparr>events := events ch @ [AckChClosed], ackCh_closed := True\<rparr>))"

definition then_do :: "step \<Rightarrow> step \<Rightarrow> step" where
  "then_do f g ch = (case f ch of (Some p, ch') \<Rightarrow> (Some p, ch') | (None, ch') \<Rightarrow> g ch')"

text \<open>\<^verbatim>\<open>if err != nil { errCh <- err; close(errCh) }\<close>: there is no return after it.\<close>

definition report :: "error option \<Rightarrow> step" where
  "report e ch =
     (case e of None \<Rightarrow> (None, ch) | Some err \<Rightarrow> then_do (send_errCh err) close_errCh ch)"

fun scan_loop :: "token list \<Rightarrow> step" where
  "scan_loop [] ch = (None, ch)"
| "scan_loop (t # ts) ch =
     then_do (report (unmarshal_error t))
       (then_do (send_ackCh (unmarshalled t)) (scan_loop ts)) ch"

definition ackReader :: "token list \<Rightarrow> error option \<Rightarrow> panic option \<times> channels" where
  "ackReader tokens scan_err =
     (case then_do (scan_loop tokens) (report scan_err) open_channels of
        (p, ch) \<Rightarrow>
          (case close_ackCh ch of
             (p', ch') \<Rightarrow> (case p of None \<Rightarrow> p' | Some q \<Rightarrow> Some q, ch')))"

text \<open>What a consumer has received on each channel.\<close>

fun delivered_acks :: "event list \<Rightarrow> InsertsStreamAck list" where
  "delivered_acks [] = []"
| "delivered_acks (AckDelivered a # es) = a # delivered_acks es"
| "delivered_acks (e # es) = delivered_acks es"

fun delivered_errs :: "event list \<Rightarrow> error list" where
  "delivered_errs [] = []"
| "delivered_errs (ErrDelivered err # es) = err # delivered_errs es"
| "delivered_errs (e # es) = delivered_errs es"

text \<open>
  The events that follow the first delivery of an error. The one-shot fault signal of the
  specification asks that they are the close of the error channel and, at most, the
  close of the acknowledgement channel.
\<close>

fun after_first_error :: "event list \<Rightarrow> event list option" where
  "after_first_error [] = None"
| "after_first_error (ErrDelivered err # es) = Some es"
| "after_first_error (e # es) = after_first_error es"

definition one_shot_fault :: "event list \<Rightarrow> bool" where
  "one_shot_fault es =
     (case after_first_error es of
        None \<Rightarrow> False
      | Some rest \<Rightarrow> rest = [ErrChClosed] \<or> rest = [ErrChClosed, AckChClosed])"

section \<open>Client.Close\<close>

text \<open>
  \<^verbatim>\<open>Client.Close\<close> (client.go, lines 560 to 578). The \<^verbatim>\<open>Close\<close> methods of the
  members are declared in other files of the package: they are parameters, acting on a
  state \<open>'s\<close> that holds whatever the members point to.
\<close>

fun close_members :: "('m \<Rightarrow> 's \<Rightarrow> error option \<times> 's) \<Rightarrow> 'm option list \<Rightarrow> 's \<Rightarrow> error option \<times> 's" where
  "close_members cl [] s = (None, s)"
| "close_members cl (None # ms) s = close_members cl ms s"
| "close_members cl (Some m # ms) s =
     (case cl m s of
        (Some err, s') \<Rightarrow> (Some err, s')
      | (None, s') \<Rightarrow> close_members cl ms s')"

definition Client_Close ::
  "('r \<Rightarrow> 's \<Rightarrow> error option \<times> 's) \<Rightarrow> ('w \<Rightarrow> 's \<Rightarrow> error option \<times> 's) \<Rightarrow>
     ('r, 'w) Client \<Rightarrow> 's \<Rightarrow> error option \<times> 's" where
  "Client_Close rowsClose wtrClose c s =
     (case close_members rowsClose (rows c) s of
        (Some err, s') \<Rightarrow> (Some err, s')
      | (None, s') \<Rightarrow> close_members wtrClose (insertsStreamWriters c) s')"

text \<open>
  The members' \<^verbatim>\<open>Close\<close> with the calls written down: \<open>answer m\<close> is what closing
  \<open>m\<close> returns, and the state is the list of the members closed so far.
\<close>

definition logged :: "('m \<Rightarrow> error option) \<Rightarrow> ('m \<Rightarrow> 'h) \<Rightarrow> 'm \<Rightarrow> 'h list \<Rightarrow> error option \<times> 'h list" where
  "logged answer name m log = (answer m, log @ [name m])"

fun non_nil :: "'m option list \<Rightarrow> 'm list" where
  "non_nil [] = []"
| "non_nil (None # ms) = non_nil ms"
| "non_nil (Some m # ms) = m # non_nil ms"

text \<open>The members up to and including the first whose \<^verbatim>\<open>Close\<close> fails, and that failure.\<close>

fun attempted :: "('m \<Rightarrow> error option) \<Rightarrow> 'm list \<Rightarrow> 'm list" where
  "attempted answer [] = []"
| "attempted answer (m # ms) =
     (case answer m of None \<Rightarrow> m # attempted answer ms | Some err \<Rightarrow> [m])"

fun first_error :: "('m \<Rightarrow> error option) \<Rightarrow> 'm list \<Rightarrow> error option" where
  "first_error answer [] = None"
| "first_error answer (m # ms) =
     (case answer m of None \<Rightarrow> first_error answer ms | Some err \<Rightarrow> Some err)"

text \<open>The non-nil members of a session in the order \<^verbatim>\<open>Client.Close\<close> walks them.\<close>

definition members :: "('r, 'w) Client \<Rightarrow> ('r + 'w) list" where
  "members c = map Inl (non_nil (rows c)) @ map Inr (non_nil (insertsStreamWriters c))"

section \<open>InsertsStreamWriter.Insert\<close>

text \<open>
  Modelled from the spec: the \<^verbatim>\<open>Insert\<close> method of \<^verbatim>\<open>InsertsStreamWriter\<close> is declared
  in a file of the package other than client.go, which only creates the writer with
  \<^verbatim>\<open>curr: 0\<close> and an empty \<^verbatim>\<open>map[int64]string\<close>. Section 4.2 of the specification:
  Insert "assigns the next monotonically increasing sequence number (starting at 0,
  strictly increasing, never reused), records a Pending Insert under that number, encodes
  the record to the outbound path, and returns the assigned sequence number". The number
  is the \<^verbatim>\<open>int64\<close> counter, so the next one is taken in 64-bit arithmetic; \<open>pending\<close> is
  what the table stores for the record.
\<close>

definition Insert :: "string \<Rightarrow> gomap \<Rightarrow> InsertsStreamWriter \<Rightarrow> 64 word \<times> InsertsStreamWriter" where
  "Insert pending record i =
     (let seq = curr i
      in (seq, i\<lparr>enc := enc i @ [Record record],
                 ackMap := (ackMap i)(seq \<mapsto> pending),
                 curr := seq + 1\<rparr>))"

text \<open>Sequential calls of \<open>Insert\<close>, one for each record, with the numbers they return.\<close>

fun Inserts :: "string \<Rightarrow> gomap list \<Rightarrow> InsertsStreamWriter \<Rightarrow> 64 word list \<times> InsertsStreamWriter" where
  "Inserts pending [] i = ([], i)"
| "Inserts pending (r # rs) i =
     (case Insert pending r i of
        (seq, i') \<Rightarrow> (case Inserts pending rs i' of (seqs, i'') \<Rightarrow> (seq # seqs, i'')))"

section \<open>Properties of the non-streaming query\<close>

lemma header_columns_shape:
  "header_columns parseSchemaKeys first = Return cols \<Longrightarrow>
     cols = unknown_columns \<or> count cols = int (length (names cols))"
  by (auto simp: header_columns_def Let_def split: option.splits json.splits)

text \<open>
  Once the header carries a schema string, the names are its keys and the count is their
  number; without a header, or without a schema in it, the schema stays unknown.
\<close>

lemma header_columns_known:
  "map_of first ''header'' = Some (JObject kvs) \<Longrightarrow>
   map_of (rev kvs) ''schema'' = Some (JString s) \<Longrightarrow>
     header_columns parseSchemaKeys first
       = Return \<lparr>count = int (length (parseSchemaKeys s)), names = parseSchemaKeys s\<rparr>"
  by (simp add: header_columns_def unknown_columns_def Let_def)

lemma header_columns_unknown:
  "map_of first ''header'' = None \<Longrightarrow>
     header_columns parseSchemaKeys first = Return unknown_columns"
  by (simp add: header_columns_def Let_def)

text \<open>
  C10. A response body that is the empty JSON array makes \<^verbatim>\<open>Query\<close> index
  \<^verbatim>\<open>resultsRaw[0]\<close> out of range: the call panics instead of returning an error. Among
  the array-shaped responses the empty one is the only one with that panic, so the index
  is safe exactly when the array is not empty.
\<close>

theorem Query_empty_array_panics:
  "Query parseSchemaKeys (answered (Some (JArray []))) = Panic (IndexOutOfRange 0 0)
   \<and> (Query parseSchemaKeys (answered (Some (JArray xs))) = Panic (IndexOutOfRange 0 0)) = (xs = [])"
  by (cases xs)
     (auto simp: Query_def answered_def header_columns_def Let_def
           split: option.splits json.splits sum.splits outcome.splits list.splits)

lemma header_columns_exact:
  "header_columns parseSchemaKeys first = Return cols \<Longrightarrow>
     (case header_schema first of
        None \<Rightarrow> cols = \<lparr>count = -1, names = []\<rparr>
      | Some schema \<Rightarrow>
          (case schema of
             JString s \<Rightarrow>
               cols = \<lparr>count = int (length (parseSchemaKeys s)), names = parseSchemaKeys s\<rparr>
           | _ \<Rightarrow> False))"
  by (auto simp: header_columns_def header_schema_def unknown_columns_def Let_def
           split: option.splits json.splits)

text \<open>
  \<^verbatim>\<open>Query\<close> returns rows only for a response that is a non-empty array, and the schema
  it returns is the one read off the first element.
\<close>

lemma Query_returns_rows:
  assumes "Query parseSchemaKeys env = Return (Inr r)"
  shows "\<exists>x xs. do_result env = Inr (Some (JArray (x # xs)))
           \<and> header_columns parseSchemaKeys (elem_map x) = Return (columns r)"
proof -
  from assms obtain doc resultsRaw where d: "do_result env = Inr doc"
      and u: "unmarshal_maps doc = Inr resultsRaw"
    by (auto simp: Query_def split: option.splits sum.splits)
  from assms d u obtain first rest where fr: "resultsRaw = first # rest"
      and h: "header_columns parseSchemaKeys first = Return (columns r)"
    by (auto simp: Query_def split: option.splits sum.splits list.splits outcome.splits)
  from u fr obtain ys where doc: "doc = Some (JArray ys)" and m: "map elem_map ys = first # rest"
    by (cases doc rule: unmarshal_maps.cases) (auto split: if_splits)
  from m obtain x xs where "ys = x # xs" "elem_map x = first" by (cases ys) auto
  with d doc h show ?thesis by auto
qed

text \<open>
  C9. The row schema the client produces. On the non-streaming path the schema starts
  from the sentinel \<open>count = -1\<close>. \<^verbatim>\<open>Query\<close> returns rows only for a non-empty array,
  and then: when the first element carries no header schema the returned schema is the
  unknown one, with count \<open>-1\<close> and no names; when it carries a schema string the names
  are the keys parsed from it and the count is their number. On the streaming path the
  names are the header's column names and the count is their number.
\<close>

theorem columns_count_invariant:
  "count unknown_columns = -1
   \<and> (Query parseSchemaKeys env = Return (Inr r) \<longrightarrow>
        (columns r = unknown_columns \<or> count (columns r) = int (length (names (columns r))))
        \<and> (\<exists>y ys. do_result env = Inr (Some (JArray (y # ys)))))
   \<and> (Query parseSchemaKeys env = Return (Inr r)
        \<and> do_result env = Inr (Some (JArray (x # xs))) \<longrightarrow>
        (case header_schema (elem_map x) of
           None \<Rightarrow> columns r = \<lparr>count = -1, names = []\<rparr>
         | Some schema \<Rightarrow>
             (case schema of
                JString s \<Rightarrow>
                  columns r = \<lparr>count = int (length (parseSchemaKeys s)),
                               names = parseSchemaKeys s\<rparr>
              | _ \<Rightarrow> False)))
   \<and> (QueryStream senv c = Inr (rs, c') \<longrightarrow>
        count (rows_columns rs) = int (length (names (rows_columns rs)))
        \<and> (\<exists>resp h. do_result senv = Inr resp \<and> header resp = Inr h
              \<and> names (rows_columns rs) = ColumnNames h))"
proof (intro conjI impI)
  show "count unknown_columns = -1"
    by (simp add: unknown_columns_def)
next
  assume "Query parseSchemaKeys env = Return (Inr r)"
  then show "columns r = unknown_columns \<or> count (columns r) = int (length (names (columns r)))"
    by (auto simp: Query_def split: option.splits sum.splits list.splits outcome.splits
             dest: header_columns_shape)
next
  assume "Query parseSchemaKeys env = Return (Inr r)"
  from Query_returns_rows [OF this]
  show "\<exists>y ys. do_result env = Inr (Some (JArray (y # ys)))" by blast
next
  assume a: "Query parseSchemaKeys env = Return (Inr r)
        \<and> do_result env = Inr (Some (JArray (x # xs)))"
  then have "header_columns parseSchemaKeys (elem_map x) = Return (columns r)"
    using Query_returns_rows [of parseSchemaKeys env r] by auto
  then show "case header_schema (elem_map x) of
           None \<Rightarrow> columns r = \<lparr>count = -1, names = []\<rparr>
         | Some schema \<Rightarrow>
             (case schema of
                JString s \<Rightarrow>
                  columns r = \<lparr>count = int (length (parseSchemaKeys s)),
                               names = parseSchemaKeys s\<rparr>
              | _ \<Rightarrow> False)"
    by (rule header_columns_exact)
next
  assume "QueryStream senv c = Inr (rs, c')"
  then show "count (rows_columns rs) = int (length (names (rows_columns rs)))"
    by (auto simp: QueryStream_def Let_def split: option.splits sum.splits)
next
  assume "QueryStream senv c = Inr (rs, c')"
  then show "\<exists>resp h. do_result senv = Inr resp \<and> header resp = Inr h
              \<and> names (rows_columns rs) = ColumnNames h"
    by (auto simp: QueryStream_def Let_def split: option.splits sum.splits)
qed

text \<open>
  The theorem at two responses of the query endpoint, one whose first element has a header
  with the schema \<open>ID\<close> and one whose first element is a bare row, and at a response of
  the query-stream endpoint with two columns.
\<close>

theorem columns_count_invariant_witness:
  "Query (\<lambda>s. [s])
     (answered (Some (JArray [JObject [(''header'', JObject [(''schema'', JString ''ID'')])]])))
     = Return (Inr \<lparr>res = [], columns = \<lparr>count = 1, names = [''ID'']\<rparr>\<rparr>)
   \<and> header_schema (elem_map (JObject [(''header'', JObject [(''schema'', JString ''ID'')])]))
       = Some (JString ''ID'')
   \<and> Query (\<lambda>s. [s])
     (answered (Some (JArray [JObject [(''row'', JObject [(''columns'', JArray [JNumber ''1''])])]])))
     = Return (Inr \<lparr>res = [], columns = \<lparr>count = -1, names = []\<rparr>\<rparr>)
   \<and> header_schema (elem_map (JObject [(''row'', JObject [(''columns'', JArray [JNumber ''1''])])]))
       = None
   \<and> QueryStream
         (answered \<lparr>header = Inr \<lparr>QueryID = ''q1'', ColumnNames = [''ID'', ''NAME''],
                                   ColumnTypes = [''BIGINT'', ''STRING'']\<rparr>,
                    Body = \<lparr>unread = [], ending = None, close_results = [], closes = 0,
                            read_closed = None\<rparr>\<rparr>)
         \<lparr>rows = [], insertsStreamWriters = ([] :: unit option list)\<rparr>
     = Inr (\<lparr>rows_body = \<lparr>queryID = ''q1'',
                          body = \<lparr>unread = [], ending = None, close_results = [], closes = 0,
                                  read_closed = None\<rparr>\<rparr>,
             rows_columns = \<lparr>count = 2, names = [''ID'', ''NAME'']\<rparr>\<rparr>,
            \<lparr>rows = [Some \<lparr>rows_body = \<lparr>queryID = ''q1'',
                          body = \<lparr>unread = [], ending = None, close_results = [], closes = 0,
                                  read_closed = None\<rparr>\<rparr>,
             rows_columns = \<lparr>count = 2, names = [''ID'', ''NAME'']\<rparr>\<rparr>],
             insertsStreamWriters = []\<rparr>)"
  using columns_count_invariant
    [of "\<lambda>s. [s]"
        "answered (Some (JArray [JObject [(''header'', JObject [(''schema'', JString ''ID'')])]]))"
        "\<lparr>res = [], columns = \<lparr>count = 1, names = [''ID'']\<rparr>\<rparr>"
        "JObject [(''header'', JObject [(''schema'', JString ''ID'')])]" "[]"
        "answered \<lparr>header = Inr \<lparr>QueryID = ''q1'', ColumnNames = [''ID'', ''NAME''],
                                   ColumnTypes = [''BIGINT'', ''STRING'']\<rparr>,
                    Body = \<lparr>unread = [], ending = None, close_results = [], closes = 0,
                            read_closed = None\<rparr>\<rparr>"
        "\<lparr>rows = [], insertsStreamWriters = ([] :: unit option list)\<rparr>"]
    columns_count_invariant
    [of "\<lambda>s. [s]"
        "answered (Some (JArray [JObject [(''row'', JObject [(''columns'', JArray [JNumber ''1''])])]]))"
        "\<lparr>res = [], columns = \<lparr>count = -1, names = []\<rparr>\<rparr>"
        "JObject [(''row'', JObject [(''columns'', JArray [JNumber ''1''])])]" "[]"
        "answered \<lparr>header = Inr \<lparr>QueryID = ''q1'', ColumnNames = [''ID'', ''NAME''],
                                   ColumnTypes = [''BIGINT'', ''STRING'']\<rparr>,
                    Body = \<lparr>unread = [], ending = None, close_results = [], closes = 0,
                            read_closed = None\<rparr>\<rparr>"
        "\<lparr>rows = [], insertsStreamWriters = ([] :: unit option list)\<rparr>"]
  by (simp add: Query_def QueryStream_def answered_def header_columns_def header_schema_def
        unknown_columns_def Let_def)

section \<open>Properties of the byte sources\<close>

lemma Close_fields:
  "Close r = (e, r') \<Longrightarrow>
     closes r' = Suc (closes r) \<and> unread r' = unread r \<and> ending r' = ending r
     \<and> read_closed r' = read_closed r"
  by (auto simp: Close_def split: list.splits)

lemma Copy_Discard_closed:
  "0 < closes r \<Longrightarrow> read_closed r = Some err \<Longrightarrow> Copy_Discard r = (Some err, r)"
  by (simp add: Copy_Discard.simps [of r] Read_def)

text \<open>
  On a source that still reads, the copy loop consumes every chunk and returns how the
  stream ends.
\<close>

lemma Copy_Discard_reads_all:
  "closes r = 0 \<or> read_closed r = None \<Longrightarrow> Copy_Discard r = (ending r, r\<lparr>unread := []\<rparr>)"
proof (induction "unread r" arbitrary: r)
  case Nil
  then show ?case
    by (auto simp: Copy_Discard.simps [of r] Read_def split: option.splits)
next
  case (Cons b bs)
  let ?r1 = "r\<lparr>unread := bs\<rparr>"
  from Cons.hyps(2) [symmetric] Cons.prems have rd: "Read r = (Bytes b, ?r1)"
    by (auto simp: Read_def)
  have "Copy_Discard ?r1 = (ending ?r1, ?r1\<lparr>unread := []\<rparr>)"
    using Cons.prems by (intro Cons.hyps(1)) simp_all
  with rd show ?case
    by (simp add: Copy_Discard.simps [of r])
qed

lemma Copy_Discard_fields:
  assumes "Copy_Discard r = (e, r')"
  shows "closes r' = closes r \<and> close_results r' = close_results r
         \<and> read_closed r' = read_closed r \<and> ending r' = ending r"
proof (cases "closes r = 0 \<or> read_closed r = None")
  case True
  with assms Copy_Discard_reads_all [OF True] show ?thesis by auto
next
  case False
  then obtain err where "0 < closes r" "read_closed r = Some err" by auto
  with assms Copy_Discard_closed [of r err] show ?thesis by auto
qed

lemma Copy_Discard_drained:
  assumes "Copy_Discard r = (None, r')"
  shows "r' = r\<lparr>unread := []\<rparr> \<and> ending r = None \<and> (closes r = 0 \<or> read_closed r = None)"
proof (cases "closes r = 0 \<or> read_closed r = None")
  case True
  with assms Copy_Discard_reads_all [OF True] show ?thesis by simp
next
  case False
  then obtain err where "0 < closes r" "read_closed r = Some err" by auto
  with assms Copy_Discard_closed [of r err] show ?thesis by simp
qed

section \<open>Properties of the Streaming Row Reader's closer\<close>

text \<open>
  C2, as stated, fails: when the terminate-query request cannot be sent, \<^verbatim>\<open>Close\<close>
  returns that failure at once and the response body is left as it was, never closed.
\<close>

theorem terminate_failure_counterexample:
  "queryStreamReadCloser_Close
     \<lparr>queryID = ''q1'',
      body = \<lparr>unread = [''[1]''], ending = None, close_results = [], closes = 0,
              read_closed = None\<rparr>\<rparr>
     \<lparr>answers = [\<lparr>encode_error = None, makeRequest_error = None,
                   do_result = Inl (Failure ''connection refused'')\<rparr>],
      close_requests = []\<rparr>
   = (Some (Failure ''connection refused''),
      \<lparr>queryID = ''q1'',
       body = \<lparr>unread = [''[1]''], ending = None, close_results = [], closes = 0,
               read_closed = None\<rparr>\<rparr>,
      \<lparr>answers = [], close_requests = [''q1'']\<rparr>)"
  by (simp add: queryStreamReadCloser_Close_def CloseQuery_def Let_def)

text \<open>
  C2, amended. \<^verbatim>\<open>Close\<close> issues the terminate-query request first. If the request
  fails, \<^verbatim>\<open>Close\<close> returns that failure and does not touch the byte source. If it
  succeeds, the byte source is closed once and \<^verbatim>\<open>Close\<close> returns what closing it
  returned.
\<close>

theorem Close_returns_terminate_failure:
  assumes "queryStreamReadCloser_Close q t = (e, q', t')"
  shows "(case fst (CloseQuery (queryID q) t) of
            Some err \<Rightarrow> e = Some err \<and> q' = q
          | None \<Rightarrow> e = fst (Close (body q)) \<and> closes (body q') = Suc (closes (body q)))
         \<and> t' = snd (CloseQuery (queryID q) t)"
  using assms
  by (auto simp: queryStreamReadCloser_Close_def Close_def
           split: prod.splits option.splits list.splits)

theorem Close_returns_terminate_failure_witness:
  "queryStreamReadCloser_Close
     \<lparr>queryID = ''q1'',
      body = \<lparr>unread = [''[1]''], ending = None, close_results = [], closes = 0,
              read_closed = None\<rparr>\<rparr>
     \<lparr>answers = [], close_requests = []\<rparr>
   = (None,
      \<lparr>queryID = ''q1'',
       body = \<lparr>unread = [''[1]''], ending = None, close_results = [], closes = 1,
               read_closed = None\<rparr>\<rparr>,
      \<lparr>answers = [], close_requests = [''q1'']\<rparr>)
   \<and> fst (CloseQuery ''q1'' \<lparr>answers = [], close_requests = []\<rparr>) = None
   \<and> closes \<lparr>unread = [''[1]''], ending = None, close_results = [], closes = 1,
              read_closed = None\<rparr>
       = Suc (closes \<lparr>unread = [''[1]''], ending = None, close_results = [], closes = 0,
                      read_closed = None\<rparr>)"
  using Close_returns_terminate_failure
    [of "\<lparr>queryID = ''q1'',
          body = \<lparr>unread = [''[1]''], ending = None, close_results = [], closes = 0,
                  read_closed = None\<rparr>\<rparr>"
        "\<lparr>answers = [], close_requests = []\<rparr>"
        None
        "\<lparr>queryID = ''q1'',
          body = \<lparr>unread = [''[1]''], ending = None, close_results = [], closes = 1,
                  read_closed = None\<rparr>\<rparr>"
        "\<lparr>answers = [], close_requests = [''q1'']\<rparr>"]
  by (simp add: queryStreamReadCloser_Close_def CloseQuery_def Close_def answered_def Let_def)

section \<open>Properties of the session's Close\<close>

text \<open>
  Whatever the members' \<^verbatim>\<open>Close\<close> does to the state: once a member fails, the walk
  ends in the state that member left, and the members after it play no part.
\<close>

lemma close_members_stops:
  "close_members cl pre s = (None, s1) \<Longrightarrow> cl m s1 = (Some err, s2) \<Longrightarrow>
     close_members cl (pre @ Some m # post) s = (Some err, s2)"
  by (induction cl pre s rule: close_members.induct)
     (auto split: prod.splits option.splits)

lemma Client_Close_rows_failure:
  "close_members rowsClose (rows c) s = (Some err, s') \<Longrightarrow>
     Client_Close rowsClose wtrClose c s = (Some err, s')"
  by (simp add: Client_Close_def)

lemma first_error_append:
  "first_error a (xs @ ys) =
     (case first_error a xs of None \<Rightarrow> first_error a ys | Some err \<Rightarrow> Some err)"
  by (induction xs) (simp_all split: option.splits)

lemma attempted_append:
  "attempted a (xs @ ys) =
     (case first_error a xs of None \<Rightarrow> xs @ attempted a ys | Some err \<Rightarrow> attempted a xs)"
  by (induction xs) (simp_all split: option.splits)

lemma first_error_map: "first_error a (map f xs) = first_error (a \<circ> f) xs"
  by (induction xs) (simp_all split: option.splits)

lemma attempted_map: "attempted a (map f xs) = map f (attempted (a \<circ> f) xs)"
  by (induction xs) (simp_all split: option.splits)

lemma close_members_logged:
  "close_members (logged a name) ms log =
     (first_error a (non_nil ms), log @ map name (attempted a (non_nil ms)))"
  by (induction ms arbitrary: log rule: non_nil.induct)
     (simp_all add: logged_def split: option.splits)

lemma attempted_all: "first_error a xs = None \<Longrightarrow> attempted a xs = xs"
  by (induction xs) (simp_all split: option.splits)

lemma case_sum_Inl: "case_sum f g \<circ> Inl = f"
  by (simp add: fun_eq_iff)

lemma case_sum_Inr: "case_sum f g \<circ> Inr = g"
  by (simp add: fun_eq_iff)

text \<open>
  C3, as stated, fails: with two row readers and one writer registered, a failure of the
  first reader's \<^verbatim>\<open>Close\<close> is returned at once; the second reader and the writer are
  never closed.
\<close>

theorem Client_Close_counterexample:
  "Client_Close (logged (\<lambda>m. if m = ''r1'' then Some (Failure ''boom'') else None) Inl)
                (logged (\<lambda>m. None) Inr)
                \<lparr>rows = [Some ''r1'', Some ''r2''], insertsStreamWriters = [Some ''w1'']\<rparr> []
     = (Some (Failure ''boom''), [Inl ''r1''])"
  by (simp add: Client_Close_def logged_def)

text \<open>
  C3, amended. Session \<^verbatim>\<open>Close\<close> closes the non-nil row readers in the order they
  were registered, then the non-nil insert-stream writers, and stops at the first member
  whose \<^verbatim>\<open>Close\<close> returns an error: it returns that error, and the members after it
  are not attempted. When no member fails, all are closed and nil is returned.
\<close>

theorem Client_Close_stops_at_first_error:
  "Client_Close (logged ra Inl) (logged wa Inr) c log =
     (first_error (case_sum ra wa) (members c), log @ attempted (case_sum ra wa) (members c))"
  by (simp add: Client_Close_def close_members_logged members_def first_error_append
        attempted_append first_error_map attempted_map case_sum_Inl case_sum_Inr attempted_all
      split: option.splits)

section \<open>Properties of the Duplex Insertion Stream's closer\<close>

text \<open>
  C5. \<^verbatim>\<open>InsertsStreamCloser.Close\<close> closes the outbound path first, whatever follows.
  When that close fails, the response body is left exactly as it was: not read, not closed.
  Otherwise the response body is copied to its end; when the copy fails, the body is left
  unclosed. Only after a copy that reached the end is the response body closed, once, with
  no byte left unread, and the result of that close is the result of \<^verbatim>\<open>Close\<close>. So the
  calls are, in this order and stopping at the first error: close of the outbound path,
  discarding copy of the response body, close of the response body.
\<close>

theorem InsertsStreamCloser_Close_order:
  assumes "InsertsStreamCloser_Close i = (e, i', calls)"
  shows "closes (req i') = Suc (closes (req i)) \<and> req i' = snd (Close (req i))
         \<and> (case fst (Close (req i)) of
               Some err \<Rightarrow> e = Some err \<and> resp i' = resp i \<and> calls = [ReqClose]
             | None \<Rightarrow>
                 (case Copy_Discard (resp i) of
                    (Some err, rs) \<Rightarrow>
                      e = Some err \<and> resp i' = rs \<and> closes (resp i') = closes (resp i)
                      \<and> calls = [ReqClose, RespCopyDiscard]
                  | (None, rs) \<Rightarrow>
                      e = fst (Close rs) \<and> resp i' = snd (Close rs)
                      \<and> rs = (resp i)\<lparr>unread := []\<rparr>
                      \<and> unread (resp i') = []
                      \<and> closes (resp i') = Suc (closes (resp i))
                      \<and> calls = [ReqClose, RespCopyDiscard, RespClose]))
         \<and> (calls = [ReqClose] \<or> calls = [ReqClose, RespCopyDiscard]
            \<or> calls = [ReqClose, RespCopyDiscard, RespClose])
         \<and> (RespClose \<in> set calls \<longrightarrow>
               unread (resp i') = [] \<and> closes (req i') = Suc (closes (req i)))
         \<and> (e = None \<longrightarrow>
               calls = [ReqClose, RespCopyDiscard, RespClose] \<and> unread (resp i') = []
               \<and> closes (req i') = Suc (closes (req i))
               \<and> closes (resp i') = Suc (closes (resp i)))"
proof (cases "Close (req i)")
  case (Pair e1 rq)
  note c1 = Pair
  show ?thesis
  proof (cases e1)
    case (Some err)
    with c1 assms Close_fields [OF c1] show ?thesis
      by (auto simp: InsertsStreamCloser_Close_def)
  next
    case None
    note e1 = None
    show ?thesis
    proof (cases "Copy_Discard (resp i)")
      case (Pair e2 rs)
      note c2 = Pair
      show ?thesis
      proof (cases e2)
        case (Some err)
        with c1 e1 c2 assms Close_fields [OF c1] Copy_Discard_fields [of "resp i" e2 rs]
        show ?thesis
          by (auto simp: InsertsStreamCloser_Close_def)
      next
        case None
        obtain e3 rs' where c3: "Close rs = (e3, rs')"
          by (cases "Close rs")
        from c1 e1 c2 None c3 assms
        have res: "e = e3" "i' = i\<lparr>req := rq, resp := rs'\<rparr>"
                  "calls = [ReqClose, RespCopyDiscard, RespClose]"
          by (auto simp: InsertsStreamCloser_Close_def)
        from c2 None have rs: "rs = (resp i)\<lparr>unread := []\<rparr>"
          using Copy_Discard_drained [of "resp i" rs] by simp
        then have "unread rs = []" "closes rs = closes (resp i)" by simp_all
        with Close_fields [OF c3] Close_fields [OF c1] res c1 e1 c2 None c3 rs show ?thesis
          by simp
      qed
    qed
  qed
qed

text \<open>
  The theorem at three closers: one on which every call succeeds, one whose outbound path
  fails to close (the response body, with two chunks unread, is not touched), and one
  whose response body ends in a read error (the body is read but not closed).
\<close>

theorem InsertsStreamCloser_Close_order_witness:
  "InsertsStreamCloser_Close
     \<lparr>req = pipe_reader,
      resp = \<lparr>unread = [''ack 0'', ''ack 1''], ending = None, close_results = [], closes = 0,
              read_closed = Some (Failure ''http2: response body closed'')\<rparr>\<rparr>
   = (None,
      \<lparr>req = pipe_reader\<lparr>closes := 1\<rparr>,
       resp = \<lparr>unread = [], ending = None, close_results = [], closes = 1,
               read_closed = Some (Failure ''http2: response body closed'')\<rparr>\<rparr>,
      [ReqClose, RespCopyDiscard, RespClose])
   \<and> RespClose \<in> set [ReqClose, RespCopyDiscard, RespClose]
   \<and> closes (pipe_reader\<lparr>closes := 1\<rparr>) = Suc (closes pipe_reader)
   \<and> InsertsStreamCloser_Close
     \<lparr>req = \<lparr>unread = [], ending = None, close_results = [Some (Failure ''close failed'')],
             closes = 0, read_closed = None\<rparr>,
      resp = \<lparr>unread = [''ack 0'', ''ack 1''], ending = None, close_results = [], closes = 0,
              read_closed = Some (Failure ''http2: response body closed'')\<rparr>\<rparr>
   = (Some (Failure ''close failed''),
      \<lparr>req = \<lparr>unread = [], ending = None, close_results = [], closes = 1, read_closed = None\<rparr>,
       resp = \<lparr>unread = [''ack 0'', ''ack 1''], ending = None, close_results = [], closes = 0,
               read_closed = Some (Failure ''http2: response body closed'')\<rparr>\<rparr>,
      [ReqClose])
   \<and> InsertsStreamCloser_Close
     \<lparr>req = pipe_reader,
      resp = \<lparr>unread = [''ack 0''], ending = Some (Failure ''connection reset''),
              close_results = [], closes = 0,
              read_closed = Some (Failure ''http2: response body closed'')\<rparr>\<rparr>
   = (Some (Failure ''connection reset''),
      \<lparr>req = pipe_reader\<lparr>closes := 1\<rparr>,
       resp = \<lparr>unread = [], ending = Some (Failure ''connection reset''),
               close_results = [], closes = 0,
               read_closed = Some (Failure ''http2: response body closed'')\<rparr>\<rparr>,
      [ReqClose, RespCopyDiscard])"
  using InsertsStreamCloser_Close_order
    [of "\<lparr>req = pipe_reader,
          resp = \<lparr>unread = [''ack 0'', ''ack 1''], ending = None, close_results = [], closes = 0,
                  read_closed = Some (Failure ''http2: response body closed'')\<rparr>\<rparr>"
        None
        "\<lparr>req = pipe_reader\<lparr>closes := 1\<rparr>,
          resp = \<lparr>unread = [], ending = None, close_results = [], closes = 1,
                  read_closed = Some (Failure ''http2: response body closed'')\<rparr>\<rparr>"
        "[ReqClose, RespCopyDiscard, RespClose]"]
    InsertsStreamCloser_Close_order
    [of "\<lparr>req = \<lparr>unread = [], ending = None, close_results = [Some (Failure ''close failed'')],
                 closes = 0, read_closed = None\<rparr>,
          resp = \<lparr>unread = [''ack 0'', ''ack 1''], ending = None, close_results = [], closes = 0,
                  read_closed = Some (Failure ''http2: response body closed'')\<rparr>\<rparr>"
        "Some (Failure ''close failed'')"
        "\<lparr>req = \<lparr>unread = [], ending = None, close_results = [], closes = 1,
                 read_closed = None\<rparr>,
          resp = \<lparr>unread = [''ack 0'', ''ack 1''], ending = None, close_results = [], closes = 0,
                  read_closed = Some (Failure ''http2: response body closed'')\<rparr>\<rparr>"
        "[ReqClose]"]
    InsertsStreamCloser_Close_order
    [of "\<lparr>req = pipe_reader,
          resp = \<lparr>unread = [''ack 0''], ending = Some (Failure ''connection reset''),
                  close_results = [], closes = 0,
                  read_closed = Some (Failure ''http2: response body closed'')\<rparr>\<rparr>"
        "Some (Failure ''connection reset'')"
        "\<lparr>req = pipe_reader\<lparr>closes := 1\<rparr>,
          resp = \<lparr>unread = [], ending = Some (Failure ''connection reset''),
                  close_results = [], closes = 0,
                  read_closed = Some (Failure ''http2: response body closed'')\<rparr>\<rparr>"
        "[ReqClose, RespCopyDiscard]"]
  by (simp add: InsertsStreamCloser_Close_def Close_def Copy_Discard_reads_all pipe_reader_def)

section \<open>Closing a stream twice\<close>

text \<open>
  C6, as stated, fails: neither \<^verbatim>\<open>Close\<close> remembers that it ran. A second
  \<^verbatim>\<open>Close\<close> of a row reader sends the terminate-query request again, and returns the
  failure of that request when the transport refuses it, although the first \<^verbatim>\<open>Close\<close>
  returned nil. A second \<^verbatim>\<open>Close\<close> of an insertion stream copies from the response
  body that the first one closed; with a body that refuses reads once closed, as the
  response bodies of \<^verbatim>\<open>net/http\<close> do, it returns that read error.
\<close>

theorem second_Close_counterexample:
  "queryStreamReadCloser_Close
     \<lparr>queryID = ''q1'',
      body = \<lparr>unread = [], ending = None, close_results = [], closes = 0, read_closed = None\<rparr>\<rparr>
     \<lparr>answers = [answered (),
                  \<lparr>encode_error = None, makeRequest_error = None,
                   do_result = Inl (Failure ''connection refused'')\<rparr>],
      close_requests = []\<rparr>
   = (None,
      \<lparr>queryID = ''q1'',
       body = \<lparr>unread = [], ending = None, close_results = [], closes = 1, read_closed = None\<rparr>\<rparr>,
      \<lparr>answers = [\<lparr>encode_error = None, makeRequest_error = None,
                   do_result = Inl (Failure ''connection refused'')\<rparr>],
       close_requests = [''q1'']\<rparr>)
   \<and> fst (queryStreamReadCloser_Close
      \<lparr>queryID = ''q1'',
       body = \<lparr>unread = [], ending = None, close_results = [], closes = 1, read_closed = None\<rparr>\<rparr>
      \<lparr>answers = [\<lparr>encode_error = None, makeRequest_error = None,
                   do_result = Inl (Failure ''connection refused'')\<rparr>],
       close_requests = [''q1'']\<rparr>) = Some (Failure ''connection refused'')
   \<and> InsertsStreamCloser_Close
     \<lparr>req = pipe_reader,
      resp = \<lparr>unread = [], ending = None, close_results = [], closes = 0,
              read_closed = Some (Failure ''http2: response body closed'')\<rparr>\<rparr>
   = (None,
      \<lparr>req = pipe_reader\<lparr>closes := 1\<rparr>,
       resp = \<lparr>unread = [], ending = None, close_results = [], closes = 1,
               read_closed = Some (Failure ''http2: response body closed'')\<rparr>\<rparr>,
      [ReqClose, RespCopyDiscard, RespClose])
   \<and> InsertsStreamCloser_Close
      \<lparr>req = pipe_reader\<lparr>closes := 1\<rparr>,
       resp = \<lparr>unread = [], ending = None, close_results = [], closes = 1,
               read_closed = Some (Failure ''http2: response body closed'')\<rparr>\<rparr>
   = (Some (Failure ''http2: response body closed''),
      \<lparr>req = pipe_reader\<lparr>closes := 2\<rparr>,
       resp = \<lparr>unread = [], ending = None, close_results = [], closes = 1,
               read_closed = Some (Failure ''http2: response body closed'')\<rparr>\<rparr>,
      [ReqClose, RespCopyDiscard])"
  by (simp add: queryStreamReadCloser_Close_def CloseQuery_def InsertsStreamCloser_Close_def
        Close_def Copy_Discard_reads_all Copy_Discard_closed answered_def pipe_reader_def Let_def)

text \<open>
  C6, amended. A second \<^verbatim>\<open>Close\<close> after a successful first one makes the same calls
  again and returns the first error among them. For the row reader these are the
  terminate-query request and the close of the body. For the insertion stream they are the
  close of the outbound path, the discarding copy, which now reads a closed body and
  returns the error of that read when the body refuses reads after its close, and the
  close of the body. The second \<^verbatim>\<open>Close\<close> returns nil exactly when every repeated call
  succeeds.
\<close>

theorem second_Close_repeats_the_calls:
  assumes q: "queryStreamReadCloser_Close q t = (None, q1, t1)"
      and i: "InsertsStreamCloser_Close i = (None, i1, calls)"
  shows "fst (queryStreamReadCloser_Close q1 t1) =
           (case fst (CloseQuery (queryID q) t1) of
              Some err \<Rightarrow> Some err
            | None \<Rightarrow> fst (Close (body q1)))
         \<and> fst (InsertsStreamCloser_Close i1) =
           (case fst (Close (req i1)) of
              Some err \<Rightarrow> Some err
            | None \<Rightarrow>
                (case read_closed (resp i) of
                   Some err \<Rightarrow> Some err
                 | None \<Rightarrow> fst (Close (resp i1))))"
proof
  from q have "queryID q1 = queryID q"
    by (auto simp: queryStreamReadCloser_Close_def split: prod.splits option.splits)
  then show "fst (queryStreamReadCloser_Close q1 t1) =
           (case fst (CloseQuery (queryID q) t1) of
              Some err \<Rightarrow> Some err
            | None \<Rightarrow> fst (Close (body q1)))"
    by (auto simp: queryStreamReadCloser_Close_def split: prod.splits option.splits)
next
  from i obtain rq rs rs' where
    c1: "Close (req i) = (None, rq)" and c2: "Copy_Discard (resp i) = (None, rs)"
    and c3: "Close rs = (None, rs')" and i1: "i1 = i\<lparr>req := rq, resp := rs'\<rparr>"
    by (auto simp: InsertsStreamCloser_Close_def split: prod.splits option.splits)
  from Copy_Discard_drained [OF c2] Close_fields [OF c3]
  have rs': "unread rs' = []" "ending rs' = None" "0 < closes rs'"
            "read_closed rs' = read_closed (resp i)"
    by simp_all
  have cd: "Copy_Discard rs' =
      (case read_closed (resp i) of Some err \<Rightarrow> (Some err, rs') | None \<Rightarrow> (None, rs'))"
  proof (cases "read_closed (resp i)")
    case None
    with rs' Copy_Discard_reads_all [of rs'] have "Copy_Discard rs' = (None, rs'\<lparr>unread := []\<rparr>)"
      by simp
    with rs' None show ?thesis by simp
  next
    case (Some err)
    with rs' show ?thesis by (simp add: Copy_Discard_closed)
  qed
  show "fst (InsertsStreamCloser_Close i1) =
           (case fst (Close (req i1)) of
              Some err \<Rightarrow> Some err
            | None \<Rightarrow>
                (case read_closed (resp i) of
                   Some err \<Rightarrow> Some err
                 | None \<Rightarrow> fst (Close (resp i1))))"
    by (auto simp: InsertsStreamCloser_Close_def i1 cd split: prod.splits option.splits)
qed

theorem second_Close_repeats_the_calls_witness:
  "queryStreamReadCloser_Close
     \<lparr>queryID = ''q1'',
      body = \<lparr>unread = [], ending = None, close_results = [], closes = 0, read_closed = None\<rparr>\<rparr>
     \<lparr>answers = [], close_requests = []\<rparr>
   = (None,
      \<lparr>queryID = ''q1'',
       body = \<lparr>unread = [], ending = None, close_results = [], closes = 1, read_closed = None\<rparr>\<rparr>,
      \<lparr>answers = [], close_requests = [''q1'']\<rparr>)
   \<and> InsertsStreamCloser_Close
     \<lparr>req = pipe_reader,
      resp = \<lparr>unread = [''ack 0''], ending = None, close_results = [], closes = 0,
              read_closed = Some (Failure ''http2: response body closed'')\<rparr>\<rparr>
   = (None,
      \<lparr>req = pipe_reader\<lparr>closes := 1\<rparr>,
       resp = \<lparr>unread = [], ending = None, close_results = [], closes = 1,
               read_closed = Some (Failure ''http2: response body closed'')\<rparr>\<rparr>,
      [ReqClose, RespCopyDiscard, RespClose])
   \<and> fst (queryStreamReadCloser_Close
      \<lparr>queryID = ''q1'',
       body = \<lparr>unread = [], ending = None, close_results = [], closes = 1, read_closed = None\<rparr>\<rparr>
      \<lparr>answers = [], close_requests = [''q1'']\<rparr>) = None
   \<and> fst (InsertsStreamCloser_Close
      \<lparr>req = pipe_reader\<lparr>closes := 1\<rparr>,
       resp = \<lparr>unread = [], ending = None, close_results = [], closes = 1,
               read_closed = Some (Failure ''http2: response body closed'')\<rparr>\<rparr>)
     = Some (Failure ''http2: response body closed'')"
  using second_Close_repeats_the_calls
    [of "\<lparr>queryID = ''q1'',
          body = \<lparr>unread = [], ending = None, close_results = [], closes = 0,
                  read_closed = None\<rparr>\<rparr>"
        "\<lparr>answers = [], close_requests = []\<rparr>"
        "\<lparr>queryID = ''q1'',
          body = \<lparr>unread = [], ending = None, close_results = [], closes = 1,
                  read_closed = None\<rparr>\<rparr>"
        "\<lparr>answers = [], close_requests = [''q1'']\<rparr>"
        "\<lparr>req = pipe_reader,
          resp = \<lparr>unread = [''ack 0''], ending = None, close_results = [], closes = 0,
                  read_closed = Some (Failure ''http2: response body closed'')\<rparr>\<rparr>"
        "\<lparr>req = pipe_reader\<lparr>closes := 1\<rparr>,
          resp = \<lparr>unread = [], ending = None, close_results = [], closes = 1,
                  read_closed = Some (Failure ''http2: response body closed'')\<rparr>\<rparr>"
        "[ReqClose, RespCopyDiscard, RespClose]"]
  by (simp add: queryStreamReadCloser_Close_def CloseQuery_def InsertsStreamCloser_Close_def
        Close_def Copy_Discard_reads_all answered_def pipe_reader_def Let_def)

section \<open>Properties of opening a Duplex Insertion Stream\<close>

text \<open>
  C7. \<^verbatim>\<open>InsertsStream\<close> returns a writer exactly when the request is built, the
  transport answers and the encode of the target descriptor has completed without error;
  the writer it returns has the target descriptor as the first and only frame on its
  outbound path, the counter 0, an empty table, and is registered with the session. When
  the encode fails the call returns an error and no writer: the error of the request or of
  the transport if one of them failed, the error of the encode otherwise.
\<close>

theorem InsertsStream_target_first:
  "(InsertsStream target env c = Inr (i, c')) =
     (makeRequest_error env = None \<and> encode_error env = None \<and>
      (\<exists>resBody. do_result env = Inr resBody
         \<and> i = \<lparr>enc = [Target target], ackMap = Map.empty, curr = 0,
                 closer = \<lparr>req = pipe_reader, resp = resBody\<rparr>\<rparr>
         \<and> c' = c\<lparr>insertsStreamWriters := insertsStreamWriters c @ [Some i]\<rparr>))
   \<and> (InsertsStream target env c = Inr (i, c') \<longrightarrow>
         encode_error env = None \<and> enc i = [Target target])
   \<and> (case encode_error env of
         None \<Rightarrow> True
       | Some err \<Rightarrow>
           InsertsStream target env c =
             Inl (case makeRequest_error env of
                    Some e \<Rightarrow> e
                  | None \<Rightarrow> (case do_result env of Inl e \<Rightarrow> e | Inr b \<Rightarrow> err)))"
  by (auto simp: InsertsStream_def Encode_def Let_def split: option.splits sum.splits prod.splits)

text \<open>
  The theorem at an opening on which every step succeeds, and at one whose encode fails
  with a closed pipe.
\<close>

theorem InsertsStream_target_first_witness:
  "InsertsStream ''orders''
      (answered \<lparr>unread = [], ending = None, close_results = [], closes = 0, read_closed = None\<rparr>)
      \<lparr>rows = ([] :: unit option list), insertsStreamWriters = []\<rparr>
     = Inr (\<lparr>enc = [Target ''orders''], ackMap = Map.empty, curr = 0,
             closer = \<lparr>req = pipe_reader,
                        resp = \<lparr>unread = [], ending = None, close_results = [], closes = 0,
                                read_closed = None\<rparr>\<rparr>\<rparr>,
            \<lparr>rows = [], insertsStreamWriters =
               [Some \<lparr>enc = [Target ''orders''], ackMap = Map.empty, curr = 0,
                      closer = \<lparr>req = pipe_reader,
                                 resp = \<lparr>unread = [], ending = None, close_results = [],
                                         closes = 0, read_closed = None\<rparr>\<rparr>\<rparr>]\<rparr>)
   \<and> encode_error
        (answered \<lparr>unread = [], ending = None, close_results = [], closes = 0,
                   read_closed = None\<rparr>) = None
   \<and> InsertsStream ''orders''
      \<lparr>encode_error = Some (Failure ''io: read/write on closed pipe''),
       makeRequest_error = None,
       do_result = Inr \<lparr>unread = [], ending = None, close_results = [], closes = 0,
                        read_closed = None\<rparr>\<rparr>
      \<lparr>rows = ([] :: unit option list), insertsStreamWriters = []\<rparr>
     = Inl (Failure ''io: read/write on closed pipe'')"
  using InsertsStream_target_first
    [of "''orders''"
        "answered \<lparr>unread = [], ending = None, close_results = [], closes = 0, read_closed = None\<rparr>"
        "\<lparr>rows = ([] :: unit option list), insertsStreamWriters = []\<rparr>"
        "\<lparr>enc = [Target ''orders''], ackMap = Map.empty, curr = 0,
          closer = \<lparr>req = pipe_reader,
                     resp = \<lparr>unread = [], ending = None, close_results = [], closes = 0,
                             read_closed = None\<rparr>\<rparr>\<rparr>"
        "\<lparr>rows = [], insertsStreamWriters =
               [Some \<lparr>enc = [Target ''orders''], ackMap = Map.empty, curr = 0,
                      closer = \<lparr>req = pipe_reader,
                                 resp = \<lparr>unread = [], ending = None, close_results = [],
                                         closes = 0, read_closed = None\<rparr>\<rparr>\<rparr>]\<rparr>"]
    InsertsStream_target_first
    [of "''orders''"
        "\<lparr>encode_error = Some (Failure ''io: read/write on closed pipe''),
          makeRequest_error = None,
          do_result = Inr \<lparr>unread = [], ending = None, close_results = [], closes = 0,
                           read_closed = None\<rparr>\<rparr>"
        "\<lparr>rows = ([] :: unit option list), insertsStreamWriters = []\<rparr>"]
  by (simp add: answered_def)

lemma InsertsStream_encode_failure:
  "encode_error env = Some err \<Longrightarrow> \<exists>e. InsertsStream target env c = Inl e"
  by (auto simp: InsertsStream_def Encode_def Let_def split: option.splits sum.splits prod.splits)

section \<open>Properties of the sequence numbers\<close>

lemma Inserts_Cons:
  "fst (Inserts pending (r # rs) i) = curr i # fst (Inserts pending rs (snd (Insert pending r i)))"
  by (simp add: Insert_def Let_def split: prod.splits)

lemma curr_Insert: "curr (snd (Insert pending r i)) = curr i + 1"
  by (simp add: Insert_def Let_def)

lemma Inserts_seqs:
  "fst (Inserts pending rs i) = map (\<lambda>k. curr i + word_of_nat k) [0..<length rs]"
proof (induction rs arbitrary: i)
  case Nil
  then show ?case by simp
next
  case (Cons r rs)
  have "map (\<lambda>k. curr i + word_of_nat k) [0..<Suc (length rs)]
        = curr i # map (\<lambda>k. curr i + 1 + word_of_nat k) [0..<length rs]"
    by (simp add: upt_rec[of 0] map_Suc_upt[symmetric] add.assoc del: upt_Suc)
  then show ?case
    unfolding Inserts_Cons Cons.IH curr_Insert by simp
qed

lemma sint_small: "k < 2 ^ 63 \<Longrightarrow> sint (word_of_nat k :: 64 word) = int k"
proof -
  assume k: "k < 2 ^ 63"
  have "sint (word_of_int (int k) :: 64 word) = signed_take_bit 63 (int k)"
    using sint_sbintrunc' [of "int k", where 'a = 64] by simp
  also have "\<dots> = int k"
    using k by (intro signed_take_bit_int_eq_self) auto
  finally show ?thesis by simp
qed

text \<open>
  C8. On a writer as \<^verbatim>\<open>InsertsStream\<close> returns it, N sequential calls of
  \<open>Insert\<close> return the numbers 0 to N - 1 in order: as 64-bit values for every N, and
  as the signed integers 0 to N - 1, strictly increasing and without repetition, for every
  N that an \<^verbatim>\<open>int64\<close> counter can count, that is up to \<open>2 ^ 63\<close> calls.
\<close>

theorem Insert_sequence_numbers:
  assumes "InsertsStream target env c = Inr (i, c')"
  shows "fst (Inserts pending records i) = map word_of_nat [0..<length records]
         \<and> (length records \<le> 2 ^ 63 \<longrightarrow>
              map sint (fst (Inserts pending records i)) = map int [0..<length records])"
proof -
  from assms have "curr i = 0"
    by (auto simp: InsertsStream_def Let_def split: option.splits sum.splits prod.splits)
  then have seqs: "fst (Inserts pending records i) = map word_of_nat [0..<length records]"
    by (simp add: Inserts_seqs)
  have "map sint (map word_of_nat [0..<length records] :: 64 word list) = map int [0..<length records]"
    if "length records \<le> 2 ^ 63"
    using that by (auto simp: sint_small)
  with seqs show ?thesis by simp
qed

theorem Insert_sequence_numbers_witness:
  "InsertsStream ''orders''
      (answered \<lparr>unread = [], ending = None, close_results = [], closes = 0, read_closed = None\<rparr>)
      \<lparr>rows = ([] :: unit option list), insertsStreamWriters = []\<rparr>
     = Inr (\<lparr>enc = [Target ''orders''], ackMap = Map.empty, curr = 0,
             closer = \<lparr>req = pipe_reader,
                        resp = \<lparr>unread = [], ending = None, close_results = [], closes = 0,
                                read_closed = None\<rparr>\<rparr>\<rparr>,
            \<lparr>rows = [], insertsStreamWriters =
               [Some \<lparr>enc = [Target ''orders''], ackMap = Map.empty, curr = 0,
                      closer = \<lparr>req = pipe_reader,
                                 resp = \<lparr>unread = [], ending = None, close_results = [],
                                         closes = 0, read_closed = None\<rparr>\<rparr>\<rparr>]\<rparr>)
   \<and> length [[(''ID'', JNumber ''1'')], [(''ID'', JNumber ''2'')], [(''ID'', JNumber ''3'')]]
       \<le> (2 :: nat) ^ 63
   \<and> map sint (fst (Inserts ''pending''
        [[(''ID'', JNumber ''1'')], [(''ID'', JNumber ''2'')], [(''ID'', JNumber ''3'')]]
        \<lparr>enc = [Target ''orders''], ackMap = Map.empty, curr = 0,
         closer = \<lparr>req = pipe_reader,
                    resp = \<lparr>unread = [], ending = None, close_results = [], closes = 0,
                            read_closed = None\<rparr>\<rparr>\<rparr>))
       = [0, 1, 2]"
  using Insert_sequence_numbers
    [of "''orders''"
        "answered \<lparr>unread = [], ending = None, close_results = [], closes = 0, read_closed = None\<rparr>"
        "\<lparr>rows = ([] :: unit option list), insertsStreamWriters = []\<rparr>"
        "\<lparr>enc = [Target ''orders''], ackMap = Map.empty, curr = 0,
          closer = \<lparr>req = pipe_reader,
                     resp = \<lparr>unread = [], ending = None, close_results = [], closes = 0,
                             read_closed = None\<rparr>\<rparr>\<rparr>"
        _ "''pending''"
        "[[(''ID'', JNumber ''1'')], [(''ID'', JNumber ''2'')], [(''ID'', JNumber ''3'')]]"]
  by (simp add: InsertsStream_def Encode_def answered_def Let_def upt_rec [of _ 3]
        upt_rec [of _ "Suc _"])

section \<open>Properties of the acknowledgement reader\<close>

lemmas reader_defs = ackReader_def then_do_def report_def send_ackCh_def send_errCh_def
  close_errCh_def close_ackCh_def open_channels_def

lemma scan_loop_decoded:
  "\<not> ackCh_closed ch \<Longrightarrow>
     scan_loop (map (Token None) acks) ch
       = (None, ch\<lparr>events := events ch @ map AckDelivered acks\<rparr>)"
  by (induction acks arbitrary: ch) (simp_all add: then_do_def report_def send_ackCh_def)

lemma delivered_acks_append: "delivered_acks (xs @ ys) = delivered_acks xs @ delivered_acks ys"
  by (induction xs rule: delivered_acks.induct) simp_all

lemma delivered_errs_append: "delivered_errs (xs @ ys) = delivered_errs xs @ delivered_errs ys"
  by (induction xs rule: delivered_errs.induct) simp_all

lemma delivered_acks_map: "delivered_acks (map AckDelivered acks) = acks"
  by (induction acks) simp_all

lemma delivered_errs_map: "delivered_errs (map AckDelivered acks) = []"
  by (induction acks) simp_all

lemma after_first_error_acks:
  "after_first_error (map AckDelivered acks @ es) = after_first_error es"
  by (induction acks) simp_all

text \<open>
  An I/O failure of the scanner, with every line before it decoded, is a one-shot fault:
  the acknowledgements read so far, then the error, the close of the error channel and the
  close of the acknowledgement channel.
\<close>

lemma ackReader_io_failure:
  "ackReader (map (Token None) acks) (Some err)
     = (None, \<lparr>events = map AckDelivered acks @ [ErrDelivered err, ErrChClosed, AckChClosed],
               ackCh_closed = True, errCh_closed = True\<rparr>)"
  by (simp add: ackReader_def then_do_def scan_loop_decoded open_channels_def report_def
        send_errCh_def close_errCh_def close_ackCh_def)

lemma ackReader_io_failure_one_shot:
  "one_shot_fault (events (snd (ackReader (map (Token None) acks) (Some err))))"
  by (simp add: ackReader_io_failure one_shot_fault_def after_first_error_acks)

text \<open>
  C1 at the failing input: a response body whose first line does not decode and whose
  second line is the acknowledgement of sequence number 0. The reader delivers the decode
  error and closes the error channel, but it does not stop: it delivers the zero-valued
  acknowledgement of the bad line and then the acknowledgement of the second line. When
  the second line is malformed too, the reader sends on the closed error channel and
  panics.
\<close>

theorem ackReader_decode_failure_goes_on:
  "ackReader [Token (Some SyntaxError) \<lparr>Status = [], Seq = 0\<rparr>,
              Token None \<lparr>Status = ''ok'', Seq = 0\<rparr>] None
     = (None, \<lparr>events = [ErrDelivered SyntaxError, ErrChClosed,
                          AckDelivered \<lparr>Status = [], Seq = 0\<rparr>,
                          AckDelivered \<lparr>Status = ''ok'', Seq = 0\<rparr>, AckChClosed],
               ackCh_closed = True, errCh_closed = True\<rparr>)
   \<and> \<not> one_shot_fault (events (snd (ackReader
          [Token (Some SyntaxError) \<lparr>Status = [], Seq = 0\<rparr>,
           Token None \<lparr>Status = ''ok'', Seq = 0\<rparr>] None)))
   \<and> fst (ackReader [Token (Some SyntaxError) \<lparr>Status = [], Seq = 0\<rparr>,
                     Token (Some SyntaxError) \<lparr>Status = [], Seq = 0\<rparr>] None)
     = Some SendOnClosedChannel"
  by (simp add: reader_defs one_shot_fault_def)

text \<open>
  C4, as stated, fails: on a stream that has issued no sequence number at all (the table
  of the new writer is empty and its counter is 0), an acknowledgement with \<open>seq = 7\<close>
  is delivered on the acknowledgement channel like any other, and nothing is delivered on
  the error channel.
\<close>

theorem unknown_seq_counterexample:
  "(case InsertsStream ''orders''
           (answered \<lparr>unread = [], ending = None, close_results = [], closes = 0,
                      read_closed = None\<rparr>)
           \<lparr>rows = ([] :: unit option list), insertsStreamWriters = []\<rparr> of
      Inl err \<Rightarrow> False
    | Inr (i, c) \<Rightarrow> ackMap i (Seq \<lparr>Status = ''ok'', Seq = 7\<rparr>) = None \<and> curr i = 0)
   \<and> delivered_acks (events (snd (ackReader [Token None \<lparr>Status = ''ok'', Seq = 7\<rparr>] None)))
        = [\<lparr>Status = ''ok'', Seq = 7\<rparr>]
   \<and> delivered_errs (events (snd (ackReader [Token None \<lparr>Status = ''ok'', Seq = 7\<rparr>] None)))
        = []"
  by (simp add: InsertsStream_def answered_def Encode_def reader_defs Let_def)

text \<open>
  Every step of the reader only adds events: what was delivered stays delivered.
\<close>

lemma scan_loop_append:
  "scan_loop (ts @ us) ch = then_do (scan_loop ts) (scan_loop us) ch"
  by (induction ts arbitrary: ch)
     (auto simp: then_do_def split: prod.splits option.splits)

lemma send_errCh_extends: "\<exists>evs. events (snd (send_errCh err ch)) = events ch @ evs"
  by (simp add: send_errCh_def)

lemma close_errCh_extends: "\<exists>evs. events (snd (close_errCh ch)) = events ch @ evs"
  by (simp add: close_errCh_def)

lemma send_ackCh_extends: "\<exists>evs. events (snd (send_ackCh a ch)) = events ch @ evs"
  by (simp add: send_ackCh_def)

lemma close_ackCh_extends: "\<exists>evs. events (snd (close_ackCh ch)) = events ch @ evs"
  by (simp add: close_ackCh_def)

lemma then_do_extends:
  assumes f: "\<And>ch. \<exists>evs. events (snd (f ch)) = events ch @ evs"
      and g: "\<And>ch. \<exists>evs. events (snd (g ch)) = events ch @ evs"
  shows "\<exists>evs. events (snd (then_do f g ch)) = events ch @ evs"
proof (cases "f ch")
  case (Pair p ch1)
  from f [of ch] Pair obtain e1 where e1: "events ch1 = events ch @ e1" by auto
  show ?thesis
  proof (cases p)
    case None
    from g [of ch1] obtain e2 where "events (snd (g ch1)) = events ch1 @ e2" by auto
    with Pair None e1 show ?thesis by (simp add: then_do_def)
  next
    case (Some q)
    with Pair e1 show ?thesis by (simp add: then_do_def)
  qed
qed

lemma report_extends: "\<exists>evs. events (snd (report e ch)) = events ch @ evs"
proof (cases e)
  case None
  then show ?thesis by (simp add: report_def)
next
  case (Some err)
  then show ?thesis
    using then_do_extends [of "send_errCh err" close_errCh ch]
    by (simp add: report_def send_errCh_extends close_errCh_extends)
qed

lemma scan_loop_extends: "\<exists>evs. events (snd (scan_loop ts ch)) = events ch @ evs"
proof (induction ts arbitrary: ch)
  case Nil
  then show ?case by simp
next
  case (Cons t ts)
  have "\<And>ch. \<exists>evs. events (snd (then_do (send_ackCh (unmarshalled t)) (scan_loop ts) ch))
            = events ch @ evs"
    by (rule then_do_extends) (rule send_ackCh_extends, rule Cons.IH)
  then show ?case
    using then_do_extends [of "report (unmarshal_error t)"
        "then_do (send_ackCh (unmarshalled t)) (scan_loop ts)" ch]
    by (simp add: report_extends)
qed

text \<open>
  The lines that decode before any other line are delivered first, one event each, whatever
  the rest of the response is.
\<close>

lemma ackReader_starts_with_decoded:
  "\<exists>evs. events (snd (ackReader (map (Token None) acks @ rest) scan_err))
          = map AckDelivered acks @ evs"
proof -
  let ?ch = "open_channels\<lparr>events := map AckDelivered acks\<rparr>"
  have start: "scan_loop (map (Token None) acks) open_channels = (None, ?ch)"
    using scan_loop_decoded [of open_channels acks] by (simp add: open_channels_def)
  have "\<And>ch. \<exists>evs. events (snd (then_do (scan_loop rest) (report scan_err) ch)) = events ch @ evs"
    by (rule then_do_extends) (rule scan_loop_extends, rule report_extends)
  then obtain evs where evs:
    "events (snd (then_do (scan_loop rest) (report scan_err) ?ch)) = events ?ch @ evs"
    by blast
  obtain p ch1 where r: "then_do (scan_loop rest) (report scan_err) ?ch = (p, ch1)"
    by (cases "then_do (scan_loop rest) (report scan_err) ?ch")
  from close_ackCh_extends [of ch1] obtain evs2 where
    "events (snd (close_ackCh ch1)) = events ch1 @ evs2" by auto
  moreover have "then_do (scan_loop (map (Token None) acks @ rest)) (report scan_err) open_channels
      = then_do (scan_loop rest) (report scan_err) ?ch"
    by (simp add: scan_loop_append then_do_def start)
  ultimately show ?thesis
    using evs r by (auto simp: ackReader_def split: prod.splits)
qed

lemma ackReader_all_decoded:
  "ackReader (map (Token None) acks) scan_err
     = (None, \<lparr>events = map AckDelivered acks
                   @ (case scan_err of None \<Rightarrow> [] | Some err \<Rightarrow> [ErrDelivered err, ErrChClosed])
                   @ [AckChClosed],
               ackCh_closed = True,
               errCh_closed = (case scan_err of None \<Rightarrow> False | Some err \<Rightarrow> True)\<rparr>)"
  by (cases scan_err)
     (simp_all add: ackReader_def then_do_def scan_loop_decoded open_channels_def report_def
        send_errCh_def close_errCh_def close_ackCh_def)

text \<open>
  C4, amended. The acknowledgement reader does not check the \<open>seq\<close> of an
  acknowledgement against the numbers the stream has issued. The lines that decode and
  that no undecodable line precedes are delivered as ordinary acknowledgements on the
  acknowledgement channel, in line order and whatever their \<open>seq\<close>, before any other
  event: no error is surfaced for them. On a response whose lines all decode, these are all
  the acknowledgements, and the only error ever delivered is the I/O error of the scanner
  at the end, when there is one.
\<close>

theorem ackReader_forwards_every_ack:
  "take (length acks) (events (snd (ackReader (map (Token None) acks @ rest) scan_err)))
     = map AckDelivered acks
   \<and> ackReader (map (Token None) acks) scan_err
     = (None, \<lparr>events = map AckDelivered acks
                   @ (case scan_err of None \<Rightarrow> [] | Some err \<Rightarrow> [ErrDelivered err, ErrChClosed])
                   @ [AckChClosed],
               ackCh_closed = True,
               errCh_closed = (case scan_err of None \<Rightarrow> False | Some err \<Rightarrow> True)\<rparr>)
   \<and> delivered_acks (events (snd (ackReader (map (Token None) acks) scan_err))) = acks
   \<and> delivered_errs (events (snd (ackReader (map (Token None) acks) scan_err)))
       = (case scan_err of None \<Rightarrow> [] | Some err \<Rightarrow> [err])"
proof (intro conjI)
  from ackReader_starts_with_decoded [of acks rest scan_err]
  show "take (length acks) (events (snd (ackReader (map (Token None) acks @ rest) scan_err)))
     = map AckDelivered acks"
    by auto
next
  show "ackReader (map (Token None) acks) scan_err
     = (None, \<lparr>events = map AckDelivered acks
                   @ (case scan_err of None \<Rightarrow> [] | Some err \<Rightarrow> [ErrDelivered err, ErrChClosed])
                   @ [AckChClosed],
               ackCh_closed = True,
               errCh_closed = (case scan_err of None \<Rightarrow> False | Some err \<Rightarrow> True)\<rparr>)"
    by (rule ackReader_all_decoded)
next
  show "delivered_acks (events (snd (ackReader (map (Token None) acks) scan_err))) = acks"
    by (cases scan_err)
       (simp_all add: ackReader_all_decoded delivered_acks_append delivered_acks_map)
next
  show "delivered_errs (events (snd (ackReader (map (Token None) acks) scan_err)))
       = (case scan_err of None \<Rightarrow> [] | Some err \<Rightarrow> [err])"
    by (cases scan_err)
       (simp_all add: ackReader_all_decoded delivered_errs_append delivered_errs_map)
qed

end
